theory Spec2Isabelle
  imports Main
begin

section \<open>Number Tileset Utility: a shallow embedding of \<^verbatim>\<open>number_tileset.py\<close>\<close>

text \<open>
  The script has two operations. \<^verbatim>\<open>print_tile_reference(width, height, tile_size=16)\<close>
  prints a grid of tile numbers; \<^verbatim>\<open>number_tileset(tileset_path, output_path=None)\<close>
  loads an image, draws a number on every 16x16 tile of a copy and saves the copy.

  Python's integers are modelled by \<^typ>\<open>int\<close>; \<^verbatim>\<open>//\<close> is floor division, which is
  \<open>div\<close> on \<^typ>\<open>int\<close>, and raises \<^verbatim>\<open>ZeroDivisionError\<close> for a zero divisor. Standard
  output is the list of the strings handed to \<^verbatim>\<open>print\<close>, one entry per call (each call
  writes its string followed by a newline). The file system is a map from path names to
  nodes. An exception that leaves a function is the \<open>Inl\<close> branch of its result.
\<close>

subsection \<open>Python built-ins used by the script\<close>

datatype error =
    ZeroDivisionError | IsADirectoryError | UnidentifiedImageError
  | TypeError | ValueError | OSError

text \<open>\<^verbatim>\<open>range(n)\<close>: the integers \<open>0, 1, ..., n - 1\<close>; empty when \<open>n \<le> 0\<close>.\<close>

definition py_range :: "int \<Rightarrow> int list" where
  "py_range n = map int [0..<nat n]"

text \<open>\<^verbatim>\<open>str\<close> on a non-negative integer: its decimal digits, most significant first.\<close>

fun str_nat :: "nat \<Rightarrow> string" where
  "str_nat n =
     (if n < 10 then [''0123456789'' ! n]
      else str_nat (n div 10) @ [''0123456789'' ! (n mod 10)])"

declare str_nat.simps [simp del]

text \<open>\<^verbatim>\<open>str(i)\<close> and \<^verbatim>\<open>f"{i}"\<close> for an integer \<open>i\<close>.\<close>

definition str_int :: "int \<Rightarrow> string" where
  "str_int i = (if i < 0 then CHR ''-'' # str_nat (nat (- i)) else str_nat (nat i))"

text \<open>
  \<^verbatim>\<open>f"{i:wd}"\<close>: the decimal string of \<open>i\<close>, padded with spaces on the left up to \<open>w\<close>
  characters; a longer string is not cut.
\<close>

definition fmt_d :: "nat \<Rightarrow> int \<Rightarrow> string" where
  "fmt_d w i = replicate (w - length (str_int i)) CHR '' '' @ str_int i"

text \<open>\<^verbatim>\<open>p.rfind(c)\<close> for a single character: the highest index of \<open>c\<close> in \<open>p\<close>, or \<open>-1\<close>.\<close>

fun rfind_from :: "char \<Rightarrow> string \<Rightarrow> int \<Rightarrow> int \<Rightarrow> int" where
  "rfind_from c [] i best = best"
| "rfind_from c (x # xs) i best = rfind_from c xs (i + 1) (if x = c then i else best)"

definition rfind :: "string \<Rightarrow> char \<Rightarrow> int" where
  "rfind p c = rfind_from c p 0 (- 1)"

text \<open>
  \<^verbatim>\<open>os.path.splitext\<close> (POSIX flavour of the standard library):
  \<^verbatim>\<open>
  sepIndex = p.rfind('/')
  dotIndex = p.rfind('.')
  if dotIndex > sepIndex:
      filenameIndex = sepIndex + 1
      while filenameIndex < dotIndex:
          if p[filenameIndex:filenameIndex+1] != '.':
              return p[:dotIndex], p[dotIndex:]
          filenameIndex += 1
  return p, p[:0]
  \<close>
  \<open>skip_leading_dots\<close> is the while loop: it answers whether the loop returns the split.
\<close>

function skip_leading_dots :: "string \<Rightarrow> int \<Rightarrow> int \<Rightarrow> bool" where
  "skip_leading_dots p filenameIndex dotIndex =
     (if filenameIndex < dotIndex then
        (if take 1 (drop (nat filenameIndex) p) \<noteq> ''.'' then True
         else skip_leading_dots p (filenameIndex + 1) dotIndex)
      else False)"
  by pat_completeness auto
termination
  by (relation "measure (\<lambda>(p, filenameIndex, dotIndex). nat (dotIndex - filenameIndex))") auto

declare skip_leading_dots.simps [simp del]

definition splitext :: "string \<Rightarrow> string \<times> string" where
  "splitext p =
     (let sepIndex = rfind p CHR ''/'';
          dotIndex = rfind p CHR ''.''
      in if dotIndex > sepIndex \<and> skip_leading_dots p (sepIndex + 1) dotIndex
         then (take (nat dotIndex) p, drop (nat dotIndex) p)
         else (p, []))"

subsection \<open>Images, fonts and the world\<close>

text \<open>
  The imaging library is not part of the script; this is what the script relies on.

  An image has a mode (\<^verbatim>\<open>RGB\<close>, \<^verbatim>\<open>RGBA\<close>, \<^verbatim>\<open>L\<close>, \<^verbatim>\<open>P\<close>, ...) and its pixels, row by row from
  the top; \<^verbatim>\<open>img.size\<close> is read off the pixels. The record also keeps the drawing calls made
  on the image, in order. \<^verbatim>\<open>img.copy()\<close> is the image itself (values are not shared).
\<close>

datatype font = TrueType string int | DefaultFont

type_synonym colour = "int list"
type_synonym box = "int \<times> int \<times> int \<times> int"

datatype draw_call =
    Rectangle box colour
  | Text "int \<times> int" string colour font

fun fill_of :: "draw_call \<Rightarrow> colour" where
  "fill_of (Rectangle bx fill) = fill"
| "fill_of (Text xy s fill fnt) = fill"

record 'px image =
  img_mode :: string
  pixels :: "'px list list"
  drawn :: "draw_call list"

definition img_size :: "'px image \<Rightarrow> int \<times> int" where
  "img_size img =
     (if pixels img = [] then 0 else int (length (hd (pixels img))),
      int (length (pixels img)))"

text \<open>
  A path names an image file, a file that is not an image, or a directory; the last two
  exist for \<^verbatim>\<open>os.path.exists\<close> and are refused by \<^verbatim>\<open>Image.open\<close>.
\<close>

datatype 'px node = ImageFile "'px image" | OtherFile | Directory

record 'px world =
  files :: "string \<rightharpoonup> 'px node"
  stdout :: "string list"

text \<open>
  What the script takes from its installation and from the library:
  \<^item> which font files \<^verbatim>\<open>ImageFont.truetype\<close> can load;
  \<^item> the bounding box \<^verbatim>\<open>draw.textbbox(xy, text, font)\<close> of a text in a font;
  \<^item> the exception a drawing call raises when it is given this fill on an image of this
    mode, if it raises one (a four-number fill on a one-band image, a colour that is not
    opaque on a palette image);
  \<^item> what a drawing call makes of the pixel at a position;
  \<^item> the exception \<^verbatim>\<open>save\<close> raises for this path and this mode, if it raises one (an
    extension it does not know, a mode the format cannot hold).
\<close>

record 'px env =
  truetype_ok :: "string \<Rightarrow> int \<Rightarrow> bool"
  textbbox :: "int \<times> int \<Rightarrow> string \<Rightarrow> font \<Rightarrow> box"
  ink_error :: "string \<Rightarrow> colour \<Rightarrow> error option"
  paint :: "string \<Rightarrow> draw_call \<Rightarrow> int \<times> int \<Rightarrow> 'px \<Rightarrow> 'px"
  save_error :: "string \<Rightarrow> string \<Rightarrow> error option"

definition print :: "string \<Rightarrow> 'px world \<Rightarrow> 'px world" where
  "print s w = w\<lparr>stdout := stdout w @ [s]\<rparr>"

text \<open>
  A drawing call works on the pixels in place: every pixel becomes what the call makes of
  it at its position, and no pixel is added or removed.
\<close>

definition render :: "'px env \<Rightarrow> string \<Rightarrow> draw_call \<Rightarrow> 'px list list \<Rightarrow> 'px list list" where
  "render e m c rows =
     map (\<lambda>(y, r). map (\<lambda>(x, p). paint e m c (int x, int y) p) (enumerate 0 r))
       (enumerate 0 rows)"

text \<open>
  \<^verbatim>\<open>draw.rectangle\<close> and \<^verbatim>\<open>draw.text\<close>: the call raises when the library refuses its fill for
  the mode of the image, and otherwise changes the pixels.
\<close>

definition draw :: "'px env \<Rightarrow> draw_call \<Rightarrow> 'px image \<Rightarrow> error + 'px image" where
  "draw e c img =
     (case ink_error e (img_mode img) (fill_of c) of
        Some err \<Rightarrow> Inl err
      | None \<Rightarrow>
          Inr (img\<lparr>pixels := render e (img_mode img) c (pixels img),
                   drawn := drawn img @ [c]\<rparr>))"

text \<open>A \<^verbatim>\<open>for\<close> loop whose body may raise: the first exception ends the loop.\<close>

fun for_each :: "('a \<Rightarrow> 's \<Rightarrow> error + 's) \<Rightarrow> 'a list \<Rightarrow> 's \<Rightarrow> error + 's" where
  "for_each body [] s = Inr s"
| "for_each body (x # xs) s =
     (case body x s of Inl err \<Rightarrow> Inl err | Inr s' \<Rightarrow> for_each body xs s')"

subsection \<open>\<^verbatim>\<open>number_tileset\<close>\<close>

text \<open>
  Lines 46 to 57, the body of the inner loop: the state is the copy drawn on and
  \<^verbatim>\<open>tile_number\<close>. The rectangle is drawn first, the text after it and so on top of it.
\<close>

definition draw_tile ::
  "'px env \<Rightarrow> font \<Rightarrow> int \<Rightarrow> int \<Rightarrow> int \<Rightarrow> 'px image \<times> int \<Rightarrow> error + 'px image \<times> int" where
  "draw_tile e fnt tile_size row col st =
     (case st of (numbered_img, tile_number) \<Rightarrow>
        (let x = col * tile_size + 2;
             y = row * tile_size + 2
         in case textbbox e (x, y) (str_int tile_number) fnt of (b0, b1, b2, b3) \<Rightarrow>
              (case draw e (Rectangle (b0 - 1, b1 - 1, b2 + 1, b3 + 1) [0, 0, 0, 180])
                      numbered_img of
                 Inl err \<Rightarrow> Inl err
               | Inr img1 \<Rightarrow>
                   (case draw e (Text (x, y) (str_int tile_number) [255, 255, 0] fnt) img1 of
                      Inl err \<Rightarrow> Inl err
                    | Inr img2 \<Rightarrow> Inr (img2, tile_number + 1)))))"

text \<open>Lines 44 to 57, the two nested loops.\<close>

definition draw_tiles ::
  "'px env \<Rightarrow> font \<Rightarrow> int \<Rightarrow> int \<Rightarrow> int \<Rightarrow> 'px image \<times> int \<Rightarrow> error + 'px image \<times> int" where
  "draw_tiles e fnt tile_size tiles_per_row tiles_per_col st =
     for_each
       (\<lambda>row. for_each (\<lambda>col. draw_tile e fnt tile_size row col) (py_range tiles_per_row))
       (py_range tiles_per_col) st"

text \<open>Lines 26 to 32: the first font that loads, else the default font.\<close>

definition load_font :: "'px env \<Rightarrow> font" where
  "load_font e =
     (if truetype_ok e ''DejaVuSans-Bold.ttf'' 12 then TrueType ''DejaVuSans-Bold.ttf'' 12
      else if truetype_ok e ''arial.ttf'' 12 then TrueType ''arial.ttf'' 12
      else DefaultFont)"

text \<open>
  The function: \<open>Inr (b, w')\<close> is the return of \<open>b\<close> in the world \<open>w'\<close>, and
  \<open>Inl (err, out)\<close> is the exception \<open>err\<close> leaving the function, from \<^verbatim>\<open>Image.open\<close>, from
  a drawing call or from \<^verbatim>\<open>save\<close>, with standard output as it is at that moment; the
  script catches none of them. The omitted \<^verbatim>\<open>output_path\<close> is \<open>None\<close>. \<^verbatim>\<open>save\<close> stores the
  image under the path, replacing what was there.
\<close>

definition number_tileset ::
  "'px env \<Rightarrow> string \<Rightarrow> string option \<Rightarrow> 'px world \<Rightarrow> error \<times> string list + bool \<times> 'px world" where
  "number_tileset e tileset_path output_path w =
     (case files w tileset_path of
        None \<Rightarrow> Inr (False, print (''ERROR: Tileset file not found: '' @ tileset_path) w)
      | Some Directory \<Rightarrow> Inl (IsADirectoryError, stdout w)
      | Some OtherFile \<Rightarrow> Inl (UnidentifiedImageError, stdout w)
      | Some (ImageFile img) \<Rightarrow>
          (case img_size img of (width, height) \<Rightarrow>
             (let fnt = load_font e;
                  tile_size = 16;
                  tiles_per_row = width div tile_size;
                  tiles_per_col = height div tile_size;
                  w1 = print (''Processing tileset: '' @ str_int width @ ''x''
                              @ str_int height @ '' pixels'') w;
                  w2 = print (''Tiles per row: '' @ str_int tiles_per_row
                              @ '', Tiles per column: '' @ str_int tiles_per_col) w1;
                  w3 = print (''Total tiles: '' @ str_int (tiles_per_row * tiles_per_col)) w2
              in case draw_tiles e fnt tile_size tiles_per_row tiles_per_col (img, 1) of
                   Inl err \<Rightarrow> Inl (err, stdout w3)
                 | Inr (numbered_img, tile_number) \<Rightarrow>
                     (let out = (case output_path of
                                   None \<Rightarrow> fst (splitext tileset_path) @ ''-numbered.png''
                                 | Some p \<Rightarrow> p)
                      in case save_error e out (img_mode numbered_img) of
                           Some err \<Rightarrow> Inl (err, stdout w3)
                         | None \<Rightarrow>
                             (let w4 = w3\<lparr>files := (files w3)(out \<mapsto> ImageFile numbered_img)\<rparr>;
                                  w5 = print (''SUCCESS: Numbered tileset saved as: '' @ out) w4
                              in Inr (True, w5))))))"

text \<open>What a call has printed, whether it returned or raised.\<close>

definition printed :: "error \<times> string list + bool \<times> 'px world \<Rightarrow> string list" where
  "printed r = (case r of Inl (err, out) \<Rightarrow> out | Inr (b, w') \<Rightarrow> stdout w')"

subsection \<open>\<^verbatim>\<open>print_tile_reference\<close>\<close>

text \<open>Lines 82 and 83, the body of the inner loop, on \<^verbatim>\<open>row_str\<close> and \<^verbatim>\<open>tile_number\<close>.\<close>

definition print_tile :: "int \<Rightarrow> string \<times> int \<Rightarrow> string \<times> int" where
  "print_tile col st =
     (case st of (row_str, tile_number) \<Rightarrow>
        (row_str @ fmt_d 3 tile_number @ '' '', tile_number + 1))"

text \<open>Lines 80 to 84, the body of the outer loop, on the lines printed and \<^verbatim>\<open>tile_number\<close>.\<close>

definition print_row :: "int \<Rightarrow> int \<Rightarrow> string list \<times> int \<Rightarrow> string list \<times> int" where
  "print_row tiles_per_row row st =
     (case st of (out, tile_number) \<Rightarrow>
        (case fold print_tile (py_range tiles_per_row)
                (''Row '' @ fmt_d 2 (row + 1) @ '': '', tile_number) of
           (row_str, tile_number') \<Rightarrow> (out @ [row_str], tile_number')))"

text \<open>
  The function on the lines printed so far. The omitted \<^verbatim>\<open>tile_size\<close> is \<open>None\<close> and
  stands for 16.
\<close>

definition print_tile_reference ::
  "int \<Rightarrow> int \<Rightarrow> int option \<Rightarrow> string list \<Rightarrow> error + string list" where
  "print_tile_reference width height tile_size_arg out =
     (let tile_size = (case tile_size_arg of None \<Rightarrow> 16 | Some t \<Rightarrow> t)
      in if tile_size = 0 then Inl ZeroDivisionError
         else
           (let tiles_per_row = width div tile_size;
                tiles_per_col = height div tile_size;
                out1 = out @ [CHR 0x0A # ''TILE NUMBER REFERENCE GRID:'',
                  ''Each number represents a tile index (1-based, left to right, top to bottom)'',
                  '''']
            in case fold (print_row tiles_per_row) (py_range tiles_per_col) (out1, 1) of
                 (out2, tile_number) \<Rightarrow>
                   Inr (out2 @ [CHR 0x0A # ''TOTAL TILES: '' @ str_int (tile_number - 1)])))"

subsection \<open>The numbering the specification describes\<close>

text \<open>
  The specification's words, not the script's: in a grid of \<open>cols\<close> columns, numbered row
  by row from 1, the cell in (0-based) row \<open>row\<close> and column \<open>col\<close> has the index
  \<open>row * cols + col + 1\<close>. The loops of the script, which count with \<^verbatim>\<open>tile_number\<close>, are
  compared with it below.
\<close>

definition row_major_index :: "int \<Rightarrow> int \<Rightarrow> int \<Rightarrow> int" where
  "row_major_index cols row col = row * cols + col + 1"

subsection \<open>Calls and images, for stating what the loops do\<close>

text \<open>
  The two calls that lines 50 to 55 make for the number \<open>tile_number\<close> at \<open>(x, y)\<close>, and the
  image after a list of calls that the library has accepted.
\<close>

definition label_calls :: "'px env \<Rightarrow> font \<Rightarrow> int \<Rightarrow> int \<Rightarrow> int \<Rightarrow> draw_call list" where
  "label_calls e fnt x y tile_number =
     (case textbbox e (x, y) (str_int tile_number) fnt of (b0, b1, b2, b3) \<Rightarrow>
        [Rectangle (b0 - 1, b1 - 1, b2 + 1, b3 + 1) [0, 0, 0, 180],
         Text (x, y) (str_int tile_number) [255, 255, 0] fnt])"

definition after_calls :: "'px env \<Rightarrow> draw_call list \<Rightarrow> 'px image \<Rightarrow> 'px image" where
  "after_calls e cs img =
     img\<lparr>pixels := fold (render e (img_mode img)) cs (pixels img),
         drawn := drawn img @ cs\<rparr>"

subsection \<open>A small installation for concrete runs\<close>

text \<open>
  One font file that loads and a bounding box seven units wide per character. Drawing
  refuses a fill that is not a single number on the one-band modes and a fill that is not
  opaque on a palette image; saving refuses an extension other than \<^verbatim>\<open>.png\<close> and the mode
  \<^verbatim>\<open>CMYK\<close>. A pixel is a number: a rectangle puts 1 inside its box, a text puts 2 at its
  anchor. The file system holds a 64x32 \<^verbatim>\<open>RGBA\<close> tileset, an image narrower than one tile,
  a 32x16 greyscale image, a text file and a directory.
\<close>

definition example_env :: "nat env" where
  "example_env =
     \<lparr>truetype_ok = (\<lambda>name sz. name = ''arial.ttf''),
      textbbox = (\<lambda>xy s fnt. case xy of (x, y) \<Rightarrow> (x, y + 3, x + 7 * int (length s), y + 12)),
      ink_error = (\<lambda>m fill.
        if (m = ''1'' \<or> m = ''L'' \<or> m = ''I'' \<or> m = ''F'') \<and> length fill \<noteq> 1
        then Some TypeError
        else if m = ''P'' \<and> length fill = 4 \<and> fill ! 3 \<noteq> 255 then Some ValueError
        else None),
      paint = (\<lambda>m c xy p.
        case c of
          Rectangle bx fill \<Rightarrow>
            (case bx of (x0, y0, x1, y1) \<Rightarrow>
               if x0 \<le> fst xy \<and> fst xy \<le> x1 \<and> y0 \<le> snd xy \<and> snd xy \<le> y1 then 1 else p)
        | Text at s fill fnt \<Rightarrow> (if xy = at then 2 else p)),
      save_error = (\<lambda>path m.
        if snd (splitext path) \<noteq> ''.png'' then Some ValueError
        else if m = ''CMYK'' then Some OSError
        else None)\<rparr>"

definition example_image :: "nat image" where
  "example_image = \<lparr>img_mode = ''RGBA'', pixels = replicate 32 (replicate 64 0), drawn = []\<rparr>"

definition small_image :: "nat image" where
  "small_image = \<lparr>img_mode = ''RGB'', pixels = replicate 40 (replicate 8 0), drawn = []\<rparr>"

definition grey_image :: "nat image" where
  "grey_image = \<lparr>img_mode = ''L'', pixels = replicate 16 (replicate 32 0), drawn = []\<rparr>"

definition example_world :: "nat world" where
  "example_world =
     \<lparr>files = [''dir/tileset.png'' \<mapsto> ImageFile example_image,
               ''small.png'' \<mapsto> ImageFile small_image,
               ''grey.png'' \<mapsto> ImageFile grey_image,
               ''notes.txt'' \<mapsto> OtherFile,
               ''dir'' \<mapsto> Directory],
      stdout = []\<rparr>"

section \<open>Properties\<close>

subsection \<open>Loops over \<^verbatim>\<open>range\<close> that count\<close>

lemma py_range_nat: "py_range (int (nat n)) = py_range n"
  by (simp add: py_range_def)

lemma py_range_step: "py_range (int (Suc n)) = py_range (int n) @ [int n]"
  by (simp add: py_range_def del: of_nat_Suc)

lemma in_py_range: "c \<in> set (py_range n) \<longleftrightarrow> 0 \<le> c \<and> c < n"
  by (auto simp: py_range_def image_iff intro: bexI [of _ "nat c"])

lemma length_py_range: "length (py_range n) = nat n"
  by (simp add: py_range_def)

text \<open>
  A loop body that appends to an accumulator and adds \<open>k\<close> to a counter: after the loop
  over \<^verbatim>\<open>range(n)\<close> the accumulator holds the pieces of all rounds, round \<open>c\<close> having seen
  the counter at \<open>t + k * c\<close>.
\<close>

lemma fold_counter_nat:
  assumes "\<And>c acc t. step c (acc, t) = (acc @ g c t, t + k)"
  shows "fold step (py_range (int n)) (acc, t :: int) =
           (acc @ concat (map (\<lambda>c. g c (t + k * c)) (py_range (int n))), t + k * int n)"
proof (induction n)
  case 0
  show ?case by (simp add: py_range_def)
next
  case (Suc n)
  show ?case
    unfolding py_range_step using Suc assms
    by (simp add: algebra_simps)
qed

lemma fold_counter:
  assumes "\<And>c acc t. step c (acc, t) = (acc @ g c t, t + k)"
  shows "fold step (py_range n) (acc, t :: int) =
           (acc @ concat (map (\<lambda>c. g c (t + k * c)) (py_range n)), t + k * int (nat n))"
proof -
  have "fold step (py_range (int (nat n))) (acc, t) =
          (acc @ concat (map (\<lambda>c. g c (t + k * c)) (py_range (int (nat n)))),
           t + k * int (nat n))"
    using assms by (rule fold_counter_nat)
  then show ?thesis unfolding py_range_nat .
qed

text \<open>Inside a row that has cells, the counter is the row-major index.\<close>

lemma index_in_row:
  assumes "col \<in> set (py_range cols)"
  shows "1 + int (nat cols) * row + col = row_major_index cols row col"
proof -
  from assms have "0 < cols" by (simp add: in_py_range)
  then have "int (nat cols) = cols" by simp
  then show ?thesis by (simp add: row_major_index_def algebra_simps)
qed

subsection \<open>The loops of \<^verbatim>\<open>print_tile_reference\<close>\<close>

lemma fold_print_tile:
  "fold print_tile (py_range n) (row_str, t) =
     (row_str @ concat (map (\<lambda>col. fmt_d 3 (t + col) @ '' '') (py_range n)), t + int (nat n))"
  using fold_counter [of print_tile "\<lambda>c t. fmt_d 3 t @ '' ''" 1 n row_str t]
  by (simp add: print_tile_def)

lemma print_row_eq:
  "print_row cols row (out, t) =
     (out @ [''Row '' @ fmt_d 2 (row + 1) @ '': ''
             @ concat (map (\<lambda>col. fmt_d 3 (t + col) @ '' '') (py_range cols))],
      t + int (nat cols))"
  by (simp add: print_row_def fold_print_tile)

lemma fold_print_row:
  "fold (print_row cols) (py_range rows) (out, 1) =
     (out @ map (\<lambda>row. ''Row '' @ fmt_d 2 (row + 1) @ '': ''
              @ concat (map (\<lambda>col. fmt_d 3 (row_major_index cols row col) @ '' '')
                          (py_range cols)))
            (py_range rows),
      1 + int (nat rows * nat cols))"
proof -
  let ?g = "\<lambda>row t. [''Row '' @ fmt_d 2 (row + 1) @ '': ''
             @ concat (map (\<lambda>col. fmt_d 3 (t + col) @ '' '') (py_range cols))]"
  let ?line = "\<lambda>row. ''Row '' @ fmt_d 2 (row + 1) @ '': ''
              @ concat (map (\<lambda>col. fmt_d 3 (row_major_index cols row col) @ '' '')
                          (py_range cols))"
  have cells: "map (\<lambda>col. fmt_d 3 (1 + int (nat cols) * row + col) @ '' '') (py_range cols) =
               map (\<lambda>col. fmt_d 3 (row_major_index cols row col) @ '' '') (py_range cols)"
    for row
    by (rule map_cong [OF refl]) (simp only: index_in_row)
  have "fold (print_row cols) (py_range rows) (out, 1) =
          (out @ concat (map (\<lambda>row. ?g row (1 + int (nat cols) * row)) (py_range rows)),
           1 + int (nat cols) * int (nat rows))"
    by (rule fold_counter) (simp only: print_row_eq)
  moreover have "concat (map (\<lambda>row. ?g row (1 + int (nat cols) * row)) (py_range rows)) =
      map ?line (py_range rows)"
    unfolding cells by (induction "py_range rows") simp_all
  moreover have "1 + int (nat cols) * int (nat rows) = 1 + int (nat rows * nat cols)"
    by (simp only: of_nat_mult mult.commute)
  ultimately show ?thesis by (simp only:)
qed

lemma print_tile_reference_eq:
  assumes "tile_size \<noteq> 0"
  shows "print_tile_reference width height (Some tile_size) out =
     Inr (out @ [CHR 0x0A # ''TILE NUMBER REFERENCE GRID:'',
            ''Each number represents a tile index (1-based, left to right, top to bottom)'',
            '''']
          @ map (\<lambda>row. ''Row '' @ fmt_d 2 (row + 1) @ '': ''
              @ concat (map (\<lambda>col. fmt_d 3 (row_major_index (width div tile_size) row col) @ '' '')
                          (py_range (width div tile_size))))
            (py_range (height div tile_size))
          @ [CHR 0x0A # ''TOTAL TILES: ''
               @ str_int (int (nat (height div tile_size) * nat (width div tile_size)))])"
  using assms by (simp add: print_tile_reference_def fold_print_row Let_def del: of_nat_mult)

subsection \<open>Row-major numbering is contiguous\<close>

lemma upt_shift: "map (\<lambda>i. int i + k) [0..<c] = map int [nat k..<nat k + c]" if "0 \<le> k"
  using that by (induction c) simp_all

lemma row_major_enum:
  "concat (map (\<lambda>row. map (row_major_index cols row) (py_range cols)) (py_range rows)) =
     map int [1..<Suc (nat rows * nat cols)]"
proof (cases "0 < cols")
  case False
  then have "py_range cols = []" by (simp add: py_range_def)
  moreover from False have "nat cols = 0" by simp
  ultimately show ?thesis by simp
next
  case True
  have row: "map (row_major_index cols (int r)) (py_range cols) =
             map int [Suc (r * nat cols)..<Suc (Suc r * nat cols)]" for r
  proof -
    have "map (row_major_index cols (int r)) (py_range cols) =
          map (\<lambda>i. int i + (int r * cols + 1)) [0..<nat cols]"
      by (simp add: py_range_def row_major_index_def algebra_simps comp_def)
    also have "\<dots> = map int [nat (int r * cols + 1)..<nat (int r * cols + 1) + nat cols]"
      using True by (intro upt_shift) simp
    also have "nat (int r * cols + 1) = Suc (r * nat cols)"
      using True by (simp add: nat_add_distrib nat_mult_distrib)
    finally show ?thesis by (simp add: add.commute)
  qed
  have "concat (map (\<lambda>row. map (row_major_index cols row) (py_range cols)) (py_range (int n))) =
        map int [1..<Suc (n * nat cols)]" for n
  proof (induction n)
    case 0
    show ?case by (simp add: py_range_def)
  next
    case (Suc n)
    have "[1..<Suc (n * nat cols) + nat cols] =
          [1..<Suc (n * nat cols)] @ [Suc (n * nat cols)..<Suc (n * nat cols) + nat cols]"
      by (rule upt_add_eq_append) simp
    moreover have "Suc (Suc n * nat cols) = Suc (n * nat cols) + nat cols"
      by simp
    ultimately have "[1..<Suc (Suc n * nat cols)] =
          [1..<Suc (n * nat cols)] @ [Suc (n * nat cols)..<Suc (Suc n * nat cols)]"
      by (simp only:)
    then show ?case
      unfolding py_range_step using Suc by (simp add: row del: upt_Suc mult_Suc)
  qed
  from this [of "nat rows"] show ?thesis by (simp only: py_range_nat)
qed

subsection \<open>\<^verbatim>\<open>os.path.splitext\<close>\<close>

lemma rfind_from_cases:
  "rfind_from c xs i best = best \<or>
   (i \<le> rfind_from c xs i best \<and> rfind_from c xs i best < i + int (length xs) \<and>
    xs ! nat (rfind_from c xs i best - i) = c)"
proof (induction xs arbitrary: i best)
  case Nil
  show ?case by simp
next
  case (Cons x xs)
  let ?b = "if x = c then i else best"
  let ?r = "rfind_from c xs (i + 1) ?b"
  from Cons [of "i + 1" ?b]
  consider "?r = ?b" | "i + 1 \<le> ?r" "?r < i + 1 + int (length xs)" "xs ! nat (?r - (i + 1)) = c"
    by blast
  then show ?case
  proof cases
    case 1
    then show ?thesis by (cases "x = c") simp_all
  next
    case 2
    from 2(1) have "nat (?r - i) = Suc (nat (?r - (i + 1)))" by simp
    with 2 show ?thesis by simp
  qed
qed

lemma rfind_cases:
  "rfind p c = - 1 \<or> (0 \<le> rfind p c \<and> nat (rfind p c) < length p \<and> p ! nat (rfind p c) = c)"
  using rfind_from_cases [of c p 0 "- 1"] by (auto simp: rfind_def)

lemma splitext_append: "fst (splitext p) @ snd (splitext p) = p"
  by (simp add: splitext_def Let_def)

lemma splitext_ext: "snd (splitext p) = [] \<or> hd (snd (splitext p)) = CHR ''.''"
proof (cases "rfind p CHR ''.'' > rfind p CHR ''/'' \<and>
              skip_leading_dots p (rfind p CHR ''/'' + 1) (rfind p CHR ''.'')")
  case False
  then show ?thesis by (auto simp: splitext_def Let_def)
next
  case True
  moreover have "- 1 \<le> rfind p CHR ''/''"
    using rfind_cases [of p "CHR ''/''"] by auto
  ultimately have "rfind p CHR ''.'' \<noteq> - 1" by simp
  with rfind_cases [of p "CHR ''.''"]
  have d: "nat (rfind p CHR ''.'') < length p" "p ! nat (rfind p CHR ''.'') = CHR ''.''"
    by auto
  from True have "snd (splitext p) = drop (nat (rfind p CHR ''.'')) p"
    by (simp add: splitext_def Let_def)
  with d show ?thesis by (simp add: hd_drop_conv_nth)
qed

lemma numbered_path_differs: "fst (splitext p) @ ''-numbered.png'' \<noteq> p"
proof
  assume "fst (splitext p) @ ''-numbered.png'' = p"
  then have "fst (splitext p) @ ''-numbered.png'' = fst (splitext p) @ snd (splitext p)"
    by (simp only: splitext_append)
  then have "snd (splitext p) = ''-numbered.png''" by simp
  with splitext_ext [of p] show False by simp
qed

lemma py_range_empty: "n \<le> 0 \<Longrightarrow> py_range n = []"
  by (simp add: py_range_def)

lemma concat_map_split:
  assumes "x \<in> set xs"
  shows "\<exists>before after. concat (map f xs) = before @ f x @ after"
proof -
  from assms obtain ys zs where "xs = ys @ x # zs"
    by (auto dest: split_list)
  then have "concat (map f xs) = concat (map f ys) @ f x @ concat (map f zs)"
    by simp
  then show ?thesis by blast
qed

lemma row_major_last:
  assumes "0 < cols" and "0 < rows"
  shows "last (concat (map (\<lambda>row. map (row_major_index cols row) (py_range cols))
                 (py_range rows))) = rows * cols"
proof -
  from assms have "0 < nat rows * nat cols" by simp
  then obtain n where n: "nat rows * nat cols = Suc n"
    by (cases "nat rows * nat cols") simp_all
  have "int (nat rows * nat cols) = rows * cols"
    using assms by simp
  then show ?thesis
    unfolding row_major_enum n by (simp del: of_nat_mult)
qed

lemma length_str_nat_small: "n < 1000 \<Longrightarrow> length (str_nat n) \<le> 3"
  by (simp add: str_nat.simps [of n] str_nat.simps [of "n div 10"]
      str_nat.simps [of "n div 10 div 10"] div_less_iff_less_mult)

lemma length_fmt_d_3: "0 \<le> n \<Longrightarrow> n < 1000 \<Longrightarrow> length (fmt_d 3 n) = 3"
  using length_str_nat_small [of "nat n"] by (simp add: fmt_d_def str_int_def)

subsection \<open>The printed grid for any width and height\<close>

text \<open>
  \<^verbatim>\<open>range\<close> of a negative number is empty, so for any integers the numbers of row lines
  and of tokens in a line are the two quotients cut off at 0.
\<close>

lemma print_tile_reference_shape:
  assumes "0 < tile_size"
  shows "\<exists>grid.
     print_tile_reference width height (Some tile_size) out =
       Inr (out @ [CHR 0x0A # ''TILE NUMBER REFERENCE GRID:'',
              ''Each number represents a tile index (1-based, left to right, top to bottom)'',
              '''']
            @ grid
            @ [CHR 0x0A # ''TOTAL TILES: ''
                 @ str_int (int (nat (width div tile_size)) * int (nat (height div tile_size)))]) \<and>
     length grid = nat (height div tile_size) \<and>
     (\<forall>line \<in> set grid. \<exists>row numbers.
        line = ''Row '' @ fmt_d 2 (row + 1) @ '': ''
                 @ concat (map (\<lambda>n. fmt_d 3 n @ '' '') numbers) \<and>
        length numbers = nat (width div tile_size) \<and>
        (\<forall>n \<in> set numbers. n < 1000 \<longrightarrow> length (fmt_d 3 n) = 3)) \<and>
     (0 \<le> width \<longrightarrow> int (nat (width div tile_size)) = width div tile_size) \<and>
     (0 \<le> height \<longrightarrow> int (nat (height div tile_size)) = height div tile_size)"
proof -
  let ?cols = "width div tile_size" and ?rows = "height div tile_size"
  let ?numbers = "\<lambda>row. map (row_major_index ?cols row) (py_range ?cols)"
  let ?line = "\<lambda>row. ''Row '' @ fmt_d 2 (row + 1) @ '': ''
                 @ concat (map (\<lambda>n. fmt_d 3 n @ '' '') (?numbers row))"
  let ?grid = "map ?line (py_range ?rows)"
  have total: "int (nat ?rows * nat ?cols) = int (nat ?cols) * int (nat ?rows)"
    by simp
  from assms have nonzero: "tile_size \<noteq> 0" by simp
  have "print_tile_reference width height (Some tile_size) out =
       Inr (out @ [CHR 0x0A # ''TILE NUMBER REFERENCE GRID:'',
              ''Each number represents a tile index (1-based, left to right, top to bottom)'',
              '''']
            @ ?grid
            @ [CHR 0x0A # ''TOTAL TILES: ''
                 @ str_int (int (nat ?cols) * int (nat ?rows))])"
    by (simp only: print_tile_reference_eq [OF nonzero] map_map comp_def total)
  moreover have "length ?grid = nat ?rows"
    by (simp add: length_py_range)
  moreover have "\<exists>row numbers.
        line = ''Row '' @ fmt_d 2 (row + 1) @ '': ''
                 @ concat (map (\<lambda>n. fmt_d 3 n @ '' '') numbers) \<and>
        length numbers = nat ?cols \<and>
        (\<forall>n \<in> set numbers. n < 1000 \<longrightarrow> length (fmt_d 3 n) = 3)"
    if "line \<in> set ?grid" for line
  proof -
    from that obtain row where row: "row \<in> set (py_range ?rows)" "line = ?line row"
      by auto
    have "length (?numbers row) = nat ?cols"
      by (simp add: length_py_range)
    moreover have "length (fmt_d 3 n) = 3" if "n \<in> set (?numbers row)" "n < 1000" for n
    proof -
      from that(1) row(1) have nonneg: "0 \<le> n"
        by (auto simp: in_py_range row_major_index_def)
      from nonneg that(2) show ?thesis by (rule length_fmt_d_3)
    qed
    ultimately show ?thesis using row(2) by blast
  qed
  moreover have "0 \<le> width \<longrightarrow> int (nat ?cols) = ?cols"
    using assms by (simp add: pos_imp_zdiv_nonneg_iff)
  moreover have "0 \<le> height \<longrightarrow> int (nat ?rows) = ?rows"
    using assms by (simp add: pos_imp_zdiv_nonneg_iff)
  ultimately show ?thesis by blast
qed

lemma label_calls_explicit:
  "label_calls e fnt x y k =
     [Rectangle (case textbbox e (x, y) (str_int k) fnt of
                   (b0, b1, b2, b3) \<Rightarrow> (b0 - 1, b1 - 1, b2 + 1, b3 + 1)) [0, 0, 0, 180],
      Text (x, y) (str_int k) [255, 255, 0] fnt]"
  by (simp add: label_calls_def split: prod.splits)

subsection \<open>Drawing calls that the library accepts\<close>

lemma after_calls_Nil: "after_calls e [] img = img"
  by (simp add: after_calls_def)

lemma mode_after_calls: "img_mode (after_calls e cs img) = img_mode img"
  by (simp add: after_calls_def)

lemma drawn_after_calls: "drawn (after_calls e cs img) = drawn img @ cs"
  by (simp add: after_calls_def)

lemma after_calls_append:
  "after_calls e (cs @ ds) img = after_calls e ds (after_calls e cs img)"
  by (simp add: after_calls_def)

lemma draw_accepted:
  assumes "ink_error e (img_mode img) (fill_of c) = None"
  shows "draw e c img = Inr (after_calls e [c] img)"
  using assms by (simp add: draw_def after_calls_def)

text \<open>Drawing keeps the length of every row of pixels, and so the size.\<close>

lemma lengths_render: "map length (render e m c rows) = map length rows"
proof -
  have "map length (render e m c rows) = map (length \<circ> snd) (enumerate 0 rows)"
    by (simp add: render_def split_def comp_def)
  also have "\<dots> = map length (map snd (enumerate 0 rows))"
    by (simp only: map_map)
  also have "\<dots> = map length rows"
    by (simp only: map_snd_enumerate)
  finally show ?thesis .
qed

lemma lengths_fold_render: "map length (fold (render e m) cs rows) = map length rows"
  by (induction cs arbitrary: rows) (simp_all add: lengths_render)

lemma img_size_lengths:
  assumes "map length (pixels img') = map length (pixels img)"
  shows "img_size img' = img_size img"
proof -
  from assms have "length (pixels img') = length (pixels img)"
    by (metis length_map)
  moreover from assms have "pixels img' \<noteq> [] \<Longrightarrow>
      length (hd (pixels img')) = length (hd (pixels img))"
    by (cases "pixels img'"; cases "pixels img") simp_all
  ultimately show ?thesis
    by (auto simp: img_size_def)
qed

lemma img_size_after_calls: "img_size (after_calls e cs img) = img_size img"
  by (rule img_size_lengths) (simp add: after_calls_def lengths_fold_render)

subsection \<open>The loops of \<^verbatim>\<open>number_tileset\<close>\<close>

lemma for_each_append:
  "for_each body (xs @ ys) s =
     (case for_each body xs s of Inl err \<Rightarrow> Inl err | Inr s' \<Rightarrow> for_each body ys s')"
  by (induction xs arbitrary: s) (simp_all split: sum.splits)

text \<open>
  The counting loop again, for a body that draws: as long as the images it meets satisfy
  \<open>P\<close>, under which the library accepts the calls \<open>g c t\<close> of a round, the loop returns the
  image after the calls of all rounds.
\<close>

lemma for_each_counter_nat:
  assumes step: "\<And>c img t. P img \<Longrightarrow> body c (img, t) = Inr (after_calls e (g c t) img, t + k)"
    and keep: "\<And>cs img. P img \<Longrightarrow> P (after_calls e cs img)"
    and start: "P img"
  shows "for_each body (py_range (int n)) (img, t :: int) =
           Inr (after_calls e (concat (map (\<lambda>c. g c (t + k * c)) (py_range (int n)))) img,
                t + k * int n)"
proof (induction n)
  case 0
  show ?case by (simp add: py_range_def after_calls_Nil)
next
  case (Suc n)
  let ?cs = "concat (map (\<lambda>c. g c (t + k * c)) (py_range (int n)))"
  have "P (after_calls e ?cs img)"
    using start by (rule keep)
  then have "body (int n) (after_calls e ?cs img, t + k * int n) =
      Inr (after_calls e (g (int n) (t + k * int n)) (after_calls e ?cs img),
           t + k * int n + k)"
    by (rule step)
  then show ?case
    unfolding py_range_step for_each_append Suc
    by (simp add: after_calls_append algebra_simps)
qed

lemma for_each_counter:
  assumes "\<And>c img t. P img \<Longrightarrow> body c (img, t) = Inr (after_calls e (g c t) img, t + k)"
    and "\<And>cs img. P img \<Longrightarrow> P (after_calls e cs img)"
    and "P img"
  shows "for_each body (py_range n) (img, t :: int) =
           Inr (after_calls e (concat (map (\<lambda>c. g c (t + k * c)) (py_range n))) img,
                t + k * int (nat n))"
proof -
  have "for_each body (py_range (int (nat n))) (img, t) =
          Inr (after_calls e (concat (map (\<lambda>c. g c (t + k * c)) (py_range (int (nat n))))) img,
               t + k * int (nat n))"
    using assms by (rule for_each_counter_nat)
  then show ?thesis unfolding py_range_nat .
qed

text \<open>The library accepts both fills of a label on the mode \<open>m\<close>.\<close>

lemma draw_tile_accepted:
  assumes "ink_error e (img_mode img) [0, 0, 0, 180] = None"
    and "ink_error e (img_mode img) [255, 255, 0] = None"
  shows "draw_tile e fnt ts row col (img, t) =
           Inr (after_calls e (label_calls e fnt (col * ts + 2) (row * ts + 2) t) img, t + 1)"
proof -
  obtain b0 b1 b2 b3 where
    bbox: "textbbox e (col * ts + 2, row * ts + 2) (str_int t) fnt = (b0, b1, b2, b3)"
    by (cases "textbbox e (col * ts + 2, row * ts + 2) (str_int t) fnt") auto
  let ?r = "Rectangle (b0 - 1, b1 - 1, b2 + 1, b3 + 1) [0, 0, 0, 180]"
  let ?t = "Text (col * ts + 2, row * ts + 2) (str_int t) [255, 255, 0] fnt"
  have r: "draw e ?r img = Inr (after_calls e [?r] img)"
    using assms(1) by (simp add: draw_accepted)
  have t: "draw e ?t (after_calls e [?r] img) = Inr (after_calls e [?t] (after_calls e [?r] img))"
    using assms(2) by (simp add: draw_accepted mode_after_calls)
  have "after_calls e [?t] (after_calls e [?r] img) = after_calls e [?r, ?t] img"
    using after_calls_append [of e "[?r]" "[?t]" img] by simp
  with r t show ?thesis
    by (simp add: draw_tile_def Let_def bbox label_calls_def)
qed

lemma draw_row_accepted:
  assumes "ink_error e (img_mode img) [0, 0, 0, 180] = None"
    and "ink_error e (img_mode img) [255, 255, 0] = None"
  shows "for_each (\<lambda>col. draw_tile e fnt ts row col) (py_range n) (img, t) =
     Inr (after_calls e
            (concat (map (\<lambda>col. label_calls e fnt (col * ts + 2) (row * ts + 2) (t + col))
                       (py_range n))) img,
          t + int (nat n))"
proof -
  let ?P = "\<lambda>i. img_mode i = img_mode img"
  have "for_each (\<lambda>col. draw_tile e fnt ts row col) (py_range n) (img, t) =
     Inr (after_calls e
            (concat (map (\<lambda>col. label_calls e fnt (col * ts + 2) (row * ts + 2) (t + 1 * col))
                       (py_range n))) img,
          t + 1 * int (nat n))"
  proof (rule for_each_counter [where P = ?P])
    show "draw_tile e fnt ts row c (i, u) =
            Inr (after_calls e (label_calls e fnt (c * ts + 2) (row * ts + 2) u) i, u + 1)"
      if "?P i" for c i u
      using that assms by (simp add: draw_tile_accepted)
    show "?P (after_calls e cs i)" if "?P i" for cs i
      using that by (simp add: mode_after_calls)
    show "?P img" by simp
  qed
  then show ?thesis by simp
qed

text \<open>
  The nested loops, when the library accepts both fills or when the grid has no cell and
  no call is made.
\<close>

lemma draw_tiles_eq:
  assumes "cols \<le> 0 \<or> rows \<le> 0 \<or>
           (ink_error e (img_mode img) [0, 0, 0, 180] = None \<and>
            ink_error e (img_mode img) [255, 255, 0] = None)"
  shows "draw_tiles e fnt ts cols rows (img, 1) =
     Inr (after_calls e
            (concat (map (\<lambda>row. concat (map (\<lambda>col.
               label_calls e fnt (col * ts + 2) (row * ts + 2) (row_major_index cols row col))
               (py_range cols))) (py_range rows))) img,
          1 + int (nat rows * nat cols))"
proof -
  let ?g = "\<lambda>row t. concat (map (\<lambda>col.
              label_calls e fnt (col * ts + 2) (row * ts + 2) (t + col)) (py_range cols))"
  let ?P = "\<lambda>i. img_mode i = img_mode img"
  have cells: "map (\<lambda>col. label_calls e fnt (col * ts + 2) (row * ts + 2)
                      (1 + int (nat cols) * row + col)) (py_range cols) =
               map (\<lambda>col. label_calls e fnt (col * ts + 2) (row * ts + 2)
                      (row_major_index cols row col)) (py_range cols)"
    for row
    by (rule map_cong [OF refl]) (simp only: index_in_row)
  have total: "1 + int (nat cols) * int (nat rows) = 1 + int (nat rows * nat cols)"
    by (simp only: of_nat_mult mult.commute)
  have "for_each (\<lambda>row. for_each (\<lambda>col. draw_tile e fnt ts row col) (py_range cols))
          (py_range rows) (img, 1) =
        Inr (after_calls e (concat (map (\<lambda>row. ?g row (1 + int (nat cols) * row))
               (py_range rows))) img,
             1 + int (nat cols) * int (nat rows))"
  proof (cases "rows \<le> 0")
    case True
    then show ?thesis by (simp add: py_range_empty after_calls_Nil)
  next
    case rows: False
    show ?thesis
    proof (cases "cols \<le> 0")
      case True
      then have none: "py_range cols = []" by (rule py_range_empty)
      have "for_each (\<lambda>row. for_each (\<lambda>col. draw_tile e fnt ts row col) (py_range cols))
              (py_range rows) (img, 1) =
            Inr (after_calls e (concat (map (\<lambda>row. [])
                   (py_range rows))) img, 1 + 0 * int (nat rows))"
        by (rule for_each_counter [where P = "\<lambda>i. True"]) (simp_all add: none after_calls_Nil)
      moreover from True have "int (nat cols) = 0" by simp
      ultimately show ?thesis by (simp add: none)
    next
      case False
      with rows assms have inks:
        "ink_error e (img_mode img) [0, 0, 0, 180] = None"
        "ink_error e (img_mode img) [255, 255, 0] = None"
        by simp_all
      show ?thesis
      proof (rule for_each_counter [where P = ?P])
        show "for_each (\<lambda>col. draw_tile e fnt ts c col) (py_range cols) (i, u) =
                Inr (after_calls e (?g c u) i, u + int (nat cols))"
          if "?P i" for c i u
          using that inks by (simp add: draw_row_accepted)
        show "?P (after_calls e cs i)" if "?P i" for cs i
          using that by (simp add: mode_after_calls)
        show "?P img" by simp
      qed
    qed
  qed
  then show ?thesis
    unfolding draw_tiles_def cells total .
qed

text \<open>The whole function on an image, when the loops and \<^verbatim>\<open>save\<close> raise nothing.\<close>

lemma number_tileset_eq:
  assumes "files w tileset_path = Some (ImageFile img)"
    and "img_size img = (width, height)"
    and "width div 16 \<le> 0 \<or> height div 16 \<le> 0 \<or>
         (ink_error e (img_mode img) [0, 0, 0, 180] = None \<and>
          ink_error e (img_mode img) [255, 255, 0] = None)"
    and "save_error e
           (case output_path of None \<Rightarrow> fst (splitext tileset_path) @ ''-numbered.png''
            | Some p \<Rightarrow> p) (img_mode img) = None"
  shows "number_tileset e tileset_path output_path w =
     Inr (True,
       w\<lparr>files := (files w)
            ((case output_path of None \<Rightarrow> fst (splitext tileset_path) @ ''-numbered.png''
              | Some p \<Rightarrow> p) \<mapsto>
             ImageFile (after_calls e (concat (map (\<lambda>row. concat (map (\<lambda>col.
                label_calls e (load_font e) (col * 16 + 2) (row * 16 + 2)
                  (row_major_index (width div 16) row col))
                (py_range (width div 16)))) (py_range (height div 16)))) img)),
         stdout := stdout w @
           [''Processing tileset: '' @ str_int width @ ''x'' @ str_int height @ '' pixels'',
            ''Tiles per row: '' @ str_int (width div 16)
              @ '', Tiles per column: '' @ str_int (height div 16),
            ''Total tiles: '' @ str_int (width div 16 * (height div 16)),
            ''SUCCESS: Numbered tileset saved as: ''
              @ (case output_path of None \<Rightarrow> fst (splitext tileset_path) @ ''-numbered.png''
                 | Some p \<Rightarrow> p)]\<rparr>)"
  using assms(1,2,4)
  by (simp add: number_tileset_def draw_tiles_eq [OF assms(3)] print_def Let_def
      mode_after_calls)

text \<open>The exceptions do leave the function.\<close>

lemma greyscale_tileset_raises:
  "number_tileset example_env ''grey.png'' None example_world =
     Inl (TypeError,
          [''Processing tileset: 32x16 pixels'',
           ''Tiles per row: 2, Tiles per column: 1'',
           ''Total tiles: 2''])"
proof -
  have "py_range 2 = [0, 1]" and "py_range 1 = [0]"
    and "str_int 32 = ''32''" and "str_int 16 = ''16''"
    and "str_int 2 = ''2''" and "str_int 1 = ''1''"
    by code_simp+
  then show ?thesis
    by (simp add: number_tileset_def example_world_def grey_image_def img_size_def
        draw_tiles_def draw_tile_def draw_def example_env_def print_def Let_def)
qed

lemma unknown_extension_raises:
  "number_tileset example_env ''small.png'' (Some ''out.xyz'') example_world =
     Inl (ValueError,
          [''Processing tileset: 8x40 pixels'',
           ''Tiles per row: 0, Tiles per column: 2'',
           ''Total tiles: 0''])"
proof -
  have "snd (splitext ''out.xyz'') = ''.xyz''" and "py_range 0 = []" and "py_range 2 = [0, 1]"
    and "str_int 8 = ''8''" and "str_int 40 = ''40''"
    and "str_int 0 = ''0''" and "str_int 2 = ''2''"
    by code_simp+
  then show ?thesis
    by (simp add: number_tileset_def example_world_def small_image_def img_size_def
        draw_tiles_def example_env_def print_def Let_def)
qed

lemma directory_raises:
  "number_tileset example_env ''dir'' None example_world = Inl (IsADirectoryError, [])"
  by (simp add: number_tileset_def example_world_def)

lemma text_file_raises:
  "number_tileset example_env ''notes.txt'' None example_world =
     Inl (UnidentifiedImageError, [])"
  by (simp add: number_tileset_def example_world_def)

section \<open>The claims\<close>

subsection \<open>A missing file\<close>

text \<open>
  C3. When the path names nothing that exists, \<^verbatim>\<open>number_tileset\<close> returns \<^verbatim>\<open>False\<close>, and the
  world it leaves differs from the one it found only by the error line on standard
  output: the file system is the same, so nothing was written, and the result is not an
  exception of the load, the drawing or the save.
\<close>

theorem number_tileset_missing_file:
  assumes "files w tileset_path = None"
  shows "number_tileset e tileset_path output_path w =
           Inr (False,
                w\<lparr>stdout := stdout w @ [''ERROR: Tileset file not found: '' @ tileset_path]\<rparr>)"
  using assms by (simp add: number_tileset_def print_def)

theorem number_tileset_missing_file_witness:
  "files example_world ''missing.png'' = None \<and>
   number_tileset example_env ''missing.png'' None example_world =
     Inr (False, example_world\<lparr>stdout := [''ERROR: Tileset file not found: missing.png'']\<rparr>)"
proof -
  have h: "files example_world ''missing.png'' = None"
    by (simp add: example_world_def)
  have s: "stdout example_world = []"
    by (simp add: example_world_def)
  show ?thesis
    using h number_tileset_missing_file [OF h, of example_env None] by (simp add: s)
qed

subsection \<open>The 64x32 grid\<close>

text \<open>
  C4, as the script behaves. For width 64, height 32 and tile size 16 there are 4 columns
  and 2 rows, and the lines printed are the three header lines, the two row lines
  \<^verbatim>\<open>Row  1:   1   2   3   4 \<close> and \<^verbatim>\<open>Row  2:   5   6   7   8 \<close>, each ending in the space
  that follows every number, and the total of 8.
\<close>

theorem print_tile_reference_64_32_16:
  "(64 :: int) div 16 = 4 \<and> (32 :: int) div 16 = 2 \<and>
   print_tile_reference 64 32 (Some 16) [] =
     Inr [CHR 0x0A # ''TILE NUMBER REFERENCE GRID:'',
          ''Each number represents a tile index (1-based, left to right, top to bottom)'',
          '''',
          ''Row  1:   1   2   3   4 '',
          ''Row  2:   5   6   7   8 '',
          CHR 0x0A # ''TOTAL TILES: 8'']"
  by code_simp

text \<open>
  C4, as it is written, asks for the row lines without the final space. No line printed
  for this input is one of those two strings.
\<close>

theorem print_tile_reference_64_32_16_no_bare_rows:
  "\<not> isl (print_tile_reference 64 32 (Some 16) []) \<and>
   ''Row  1:   1   2   3   4'' \<notin> set (projr (print_tile_reference 64 32 (Some 16) [])) \<and>
   ''Row  2:   5   6   7   8'' \<notin> set (projr (print_tile_reference 64 32 (Some 16) []))"
  by code_simp

subsection \<open>The default output path\<close>

text \<open>
  C6. Without an output path, on an image that the library lets the script draw on and
  save, \<^verbatim>\<open>number_tileset\<close> saves under the path that \<^verbatim>\<open>os.path.splitext\<close> gives for the
  source, without its extension, followed by \<^verbatim>\<open>-numbered.png\<close>, and reports that path. The
  extension removed is the rest of the source path: it is empty or starts with the dot.
  For \<^verbatim>\<open>dir/tileset.png\<close> this is \<^verbatim>\<open>dir/tileset-numbered.png\<close>.
\<close>

theorem default_output_path:
  assumes "files w tileset_path = Some (ImageFile img)"
    and "ink_error e (img_mode img) [0, 0, 0, 180] = None"
    and "ink_error e (img_mode img) [255, 255, 0] = None"
    and "save_error e (fst (splitext tileset_path) @ ''-numbered.png'') (img_mode img) = None"
  shows "\<exists>w' numbered.
           number_tileset e tileset_path None w = Inr (True, w') \<and>
           files w' = (files w)(fst (splitext tileset_path) @ ''-numbered.png'' \<mapsto>
                                  ImageFile numbered) \<and>
           last (stdout w') = ''SUCCESS: Numbered tileset saved as: ''
                                @ fst (splitext tileset_path) @ ''-numbered.png'' \<and>
           fst (splitext tileset_path) @ snd (splitext tileset_path) = tileset_path \<and>
           (snd (splitext tileset_path) = [] \<or> hd (snd (splitext tileset_path)) = CHR ''.'')"
proof -
  obtain width height where size: "img_size img = (width, height)"
    by (cases "img_size img")
  have "number_tileset e tileset_path None w =
     Inr (True,
       w\<lparr>files := (files w)
            (fst (splitext tileset_path) @ ''-numbered.png'' \<mapsto>
             ImageFile (after_calls e (concat (map (\<lambda>row. concat (map (\<lambda>col.
                label_calls e (load_font e) (col * 16 + 2) (row * 16 + 2)
                  (row_major_index (width div 16) row col))
                (py_range (width div 16)))) (py_range (height div 16)))) img)),
         stdout := stdout w @
           [''Processing tileset: '' @ str_int width @ ''x'' @ str_int height @ '' pixels'',
            ''Tiles per row: '' @ str_int (width div 16)
              @ '', Tiles per column: '' @ str_int (height div 16),
            ''Total tiles: '' @ str_int (width div 16 * (height div 16)),
            ''SUCCESS: Numbered tileset saved as: ''
              @ fst (splitext tileset_path) @ ''-numbered.png'']\<rparr>)"
    using number_tileset_eq [OF assms(1) size, of e None] assms(2-4) by simp
  then show ?thesis
    using splitext_ext [of tileset_path] by (simp add: splitext_append) blast
qed

theorem default_output_path_witness:
  "files example_world ''dir/tileset.png'' = Some (ImageFile example_image) \<and>
   ink_error example_env (img_mode example_image) [0, 0, 0, 180] = None \<and>
   ink_error example_env (img_mode example_image) [255, 255, 0] = None \<and>
   save_error example_env (fst (splitext ''dir/tileset.png'') @ ''-numbered.png'')
     (img_mode example_image) = None \<and>
   splitext ''dir/tileset.png'' = (''dir/tileset'', ''.png'') \<and>
   files (snd (projr (number_tileset example_env ''dir/tileset.png'' None example_world)))
     ''dir/tileset-numbered.png'' \<noteq> None \<and>
   last (stdout (snd (projr (number_tileset example_env ''dir/tileset.png'' None example_world))))
     = ''SUCCESS: Numbered tileset saved as: dir/tileset-numbered.png''"
proof -
  have h: "files example_world ''dir/tileset.png'' = Some (ImageFile example_image)"
    by (simp add: example_world_def)
  have s: "splitext ''dir/tileset.png'' = (''dir/tileset'', ''.png'')"
    by code_simp
  have x: "snd (splitext ''dir/tileset-numbered.png'') = ''.png''"
    by code_simp
  have r: "ink_error example_env (img_mode example_image) [0, 0, 0, 180] = None"
    and t: "ink_error example_env (img_mode example_image) [255, 255, 0] = None"
    by (simp_all add: example_env_def example_image_def)
  have v: "save_error example_env (fst (splitext ''dir/tileset.png'') @ ''-numbered.png'')
     (img_mode example_image) = None"
    by (simp add: s x example_env_def example_image_def)
  from default_output_path [OF h r t v] obtain w' numbered where
    "number_tileset example_env ''dir/tileset.png'' None example_world = Inr (True, w')"
    "files w' = (files example_world)(fst (splitext ''dir/tileset.png'') @ ''-numbered.png'' \<mapsto>
                                  ImageFile numbered)"
    "last (stdout w') = ''SUCCESS: Numbered tileset saved as: ''
                                @ fst (splitext ''dir/tileset.png'') @ ''-numbered.png''"
    by blast
  with h s r t v show ?thesis by simp
qed

subsection \<open>The canvas keeps its size\<close>

text \<open>
  C5. For a source that is an image of size \<open>W\<close> x \<open>H\<close>, on which the library lets the
  script draw and which it lets the script save, \<^verbatim>\<open>number_tileset\<close> returns \<^verbatim>\<open>True\<close> and the
  file under the output path is an image of size \<open>W\<close> x \<open>H\<close>: every drawing call leaves each
  row of pixels as long as it was and the number of rows as it was. This holds for every
  size, so in particular when 16 divides both \<open>W\<close> and \<open>H\<close>, as in the 64x32 run below.
\<close>

theorem number_tileset_keeps_size:
  assumes "files w tileset_path = Some (ImageFile img)"
    and "img_size img = (W, H)"
    and "ink_error e (img_mode img) [0, 0, 0, 180] = None"
    and "ink_error e (img_mode img) [255, 255, 0] = None"
    and "save_error e
           (case output_path of None \<Rightarrow> fst (splitext tileset_path) @ ''-numbered.png''
            | Some p \<Rightarrow> p) (img_mode img) = None"
  shows "\<exists>w' numbered.
           number_tileset e tileset_path output_path w = Inr (True, w') \<and>
           files w' (case output_path of
                       None \<Rightarrow> fst (splitext tileset_path) @ ''-numbered.png''
                     | Some p \<Rightarrow> p) = Some (ImageFile numbered) \<and>
           img_size numbered = (W, H)"
proof -
  have "W div 16 \<le> 0 \<or> H div 16 \<le> 0 \<or>
         (ink_error e (img_mode img) [0, 0, 0, 180] = None \<and>
          ink_error e (img_mode img) [255, 255, 0] = None)"
    using assms(3,4) by simp
  from number_tileset_eq [OF assms(1,2) this assms(5)] show ?thesis
    by (simp add: img_size_after_calls assms(2))
qed

theorem number_tileset_keeps_size_witness:
  "files example_world ''dir/tileset.png'' = Some (ImageFile example_image) \<and>
   img_size example_image = (64, 32) \<and> (16 :: int) dvd 64 \<and> (16 :: int) dvd 32 \<and>
   ink_error example_env (img_mode example_image) [0, 0, 0, 180] = None \<and>
   ink_error example_env (img_mode example_image) [255, 255, 0] = None \<and>
   save_error example_env ''out.png'' (img_mode example_image) = None \<and>
   (\<exists>numbered.
      files (snd (projr (number_tileset example_env ''dir/tileset.png'' (Some ''out.png'')
                 example_world))) ''out.png'' = Some (ImageFile numbered) \<and>
      img_size numbered = (64, 32))"
proof -
  have h: "files example_world ''dir/tileset.png'' = Some (ImageFile example_image)"
    by (simp add: example_world_def)
  have s: "img_size example_image = (64, 32)"
    by (simp add: example_image_def img_size_def)
  have x: "snd (splitext ''out.png'') = ''.png''"
    by code_simp
  have r: "ink_error example_env (img_mode example_image) [0, 0, 0, 180] = None"
    and t: "ink_error example_env (img_mode example_image) [255, 255, 0] = None"
    by (simp_all add: example_env_def example_image_def)
  have v: "save_error example_env (case Some ''out.png'' of
       None \<Rightarrow> fst (splitext ''dir/tileset.png'') @ ''-numbered.png'' | Some p \<Rightarrow> p)
     (img_mode example_image) = None"
    by (simp add: x example_env_def example_image_def)
  from number_tileset_keeps_size [OF h s r t v]
  obtain w' numbered where
    "number_tileset example_env ''dir/tileset.png'' (Some ''out.png'') example_world
       = Inr (True, w')"
    "files w' ''out.png'' = Some (ImageFile numbered)"
    "img_size numbered = (64, 32)"
    by auto
  then have "\<exists>numbered.
      files (snd (projr (number_tileset example_env ''dir/tileset.png'' (Some ''out.png'')
                 example_world))) ''out.png'' = Some (ImageFile numbered) \<and>
      img_size numbered = (64, 32)"
    by simp
  moreover from v have "save_error example_env ''out.png'' (img_mode example_image) = None"
    by simp
  ultimately show ?thesis using h s r t by simp
qed

subsection \<open>An image smaller than one tile\<close>

text \<open>
  C9. When the image is less than 16 wide or less than 16 high, and the library lets the
  script save it, the loops make no drawing call: \<^verbatim>\<open>number_tileset\<close> returns \<^verbatim>\<open>True\<close> and
  the file system it leaves is the one it found with the source image itself, unchanged,
  stored under the output path.
\<close>

theorem number_tileset_no_cells:
  assumes "files w tileset_path = Some (ImageFile img)"
    and "img_size img = (W, H)"
    and "W < 16 \<or> H < 16"
    and "save_error e
           (case output_path of None \<Rightarrow> fst (splitext tileset_path) @ ''-numbered.png''
            | Some p \<Rightarrow> p) (img_mode img) = None"
  shows "\<exists>w'. number_tileset e tileset_path output_path w = Inr (True, w') \<and>
           files w' = (files w)((case output_path of
                                   None \<Rightarrow> fst (splitext tileset_path) @ ''-numbered.png''
                                 | Some p \<Rightarrow> p) \<mapsto> ImageFile img)"
proof -
  from assms(3) have none: "W div 16 \<le> 0 \<or> H div 16 \<le> 0"
    by presburger
  then have cells: "W div 16 \<le> 0 \<or> H div 16 \<le> 0 \<or>
         (ink_error e (img_mode img) [0, 0, 0, 180] = None \<and>
          ink_error e (img_mode img) [255, 255, 0] = None)"
    by blast
  from none have "py_range (W div 16) = [] \<or> py_range (H div 16) = []"
    by (auto simp: py_range_empty)
  then have "concat (map (\<lambda>row. concat (map (\<lambda>col.
                label_calls e (load_font e) (col * 16 + 2) (row * 16 + 2)
                  (row_major_index (W div 16) row col))
                (py_range (W div 16)))) (py_range (H div 16))) = []"
    by auto
  then have "after_calls e (concat (map (\<lambda>row. concat (map (\<lambda>col.
                label_calls e (load_font e) (col * 16 + 2) (row * 16 + 2)
                  (row_major_index (W div 16) row col))
                (py_range (W div 16)))) (py_range (H div 16)))) img = img"
    by (simp only: after_calls_Nil)
  then show ?thesis
    by (simp only: number_tileset_eq [OF assms(1,2) cells assms(4)]) simp
qed

theorem number_tileset_no_cells_witness:
  "files example_world ''small.png'' = Some (ImageFile small_image) \<and>
   img_size small_image = (8, 40) \<and> ((8 :: int) < 16 \<or> (40 :: int) < 16) \<and>
   save_error example_env (fst (splitext ''small.png'') @ ''-numbered.png'')
     (img_mode small_image) = None \<and>
   fst (projr (number_tileset example_env ''small.png'' None example_world)) \<and>
   files (snd (projr (number_tileset example_env ''small.png'' None example_world)))
     = (files example_world)(''small-numbered.png'' \<mapsto> ImageFile small_image)"
proof -
  have h: "files example_world ''small.png'' = Some (ImageFile small_image)"
    by (simp add: example_world_def)
  have s: "img_size small_image = (8, 40)"
    by (simp add: small_image_def img_size_def)
  have c: "(8 :: int) < 16 \<or> (40 :: int) < 16"
    by simp
  have p: "fst (splitext ''small.png'') = ''small''"
    by code_simp
  have x: "snd (splitext ''small-numbered.png'') = ''.png''"
    by code_simp
  have v: "save_error example_env (case None of
       None \<Rightarrow> fst (splitext ''small.png'') @ ''-numbered.png'' | Some p \<Rightarrow> p)
     (img_mode small_image) = None"
    by (simp add: p x example_env_def small_image_def)
  from number_tileset_no_cells [OF h s c v] h s p v
  show ?thesis by auto
qed

subsection \<open>The tile size of \<^verbatim>\<open>number_tileset\<close> is 16\<close>

text \<open>
  C10. \<^verbatim>\<open>number_tileset\<close> has no tile-size argument (its arguments are the source path
  and the optional output path). Every call on an image of size \<open>width\<close> x \<open>height\<close>,
  whether it returns or raises later, prints \<open>width div 16\<close> and \<open>height div 16\<close> as its
  numbers of tiles per row and per column, and a call that returns has stored the image
  that the loops for tile size 16 and these two numbers return. \<^verbatim>\<open>print_tile_reference\<close>
  takes the tile size: leaving it out is passing 16, and passing 32 prints something else.
\<close>

theorem number_tileset_tile_size_16:
  assumes "files w tileset_path = Some (ImageFile img)"
    and "img_size img = (width, height)"
  shows "take 3 (drop (length (stdout w))
                  (printed (number_tileset e tileset_path output_path w))) =
           [''Processing tileset: '' @ str_int width @ ''x'' @ str_int height @ '' pixels'',
            ''Tiles per row: '' @ str_int (width div 16)
              @ '', Tiles per column: '' @ str_int (height div 16),
            ''Total tiles: '' @ str_int (width div 16 * (height div 16))] \<and>
         (\<forall>b w'. number_tileset e tileset_path output_path w = Inr (b, w') \<longrightarrow>
            (\<exists>numbered tile_number.
               draw_tiles e (load_font e) 16 (width div 16) (height div 16) (img, 1) =
                 Inr (numbered, tile_number) \<and>
               files w' (case output_path of
                           None \<Rightarrow> fst (splitext tileset_path) @ ''-numbered.png''
                         | Some p \<Rightarrow> p) = Some (ImageFile numbered))) \<and>
         print_tile_reference w0 h0 None out = print_tile_reference w0 h0 (Some 16) out \<and>
         print_tile_reference 64 32 (Some 32) [] \<noteq> print_tile_reference 64 32 (Some 16) []"
proof -
  have "take 3 (drop (length (stdout w))
                  (printed (number_tileset e tileset_path output_path w))) =
           [''Processing tileset: '' @ str_int width @ ''x'' @ str_int height @ '' pixels'',
            ''Tiles per row: '' @ str_int (width div 16)
              @ '', Tiles per column: '' @ str_int (height div 16),
            ''Total tiles: '' @ str_int (width div 16 * (height div 16))]"
    using assms
    by (simp add: number_tileset_def printed_def print_def Let_def
        split: sum.splits option.splits prod.splits)
  moreover
  have "\<forall>b w'. number_tileset e tileset_path output_path w = Inr (b, w') \<longrightarrow>
            (\<exists>numbered tile_number.
               draw_tiles e (load_font e) 16 (width div 16) (height div 16) (img, 1) =
                 Inr (numbered, tile_number) \<and>
               files w' (case output_path of
                           None \<Rightarrow> fst (splitext tileset_path) @ ''-numbered.png''
                         | Some p \<Rightarrow> p) = Some (ImageFile numbered))"
    using assms
    by (auto simp add: number_tileset_def print_def Let_def
        split: sum.splits option.splits prod.splits)
  moreover
  have "print_tile_reference w0 h0 None out = print_tile_reference w0 h0 (Some 16) out"
    by (simp add: print_tile_reference_def)
  moreover
  have "print_tile_reference 64 32 (Some 32) [] \<noteq> print_tile_reference 64 32 (Some 16) []"
    by code_simp
  ultimately show ?thesis by blast
qed

theorem number_tileset_tile_size_16_witness:
  "files example_world ''dir/tileset.png'' = Some (ImageFile example_image) \<and>
   img_size example_image = (64, 32) \<and>
   files example_world ''grey.png'' = Some (ImageFile grey_image) \<and>
   img_size grey_image = (32, 16) \<and>
   take 3 (printed (number_tileset example_env ''dir/tileset.png'' None example_world)) =
     [''Processing tileset: 64x32 pixels'',
      ''Tiles per row: 4, Tiles per column: 2'',
      ''Total tiles: 8''] \<and>
   take 3 (printed (number_tileset example_env ''grey.png'' None example_world)) =
     [''Processing tileset: 32x16 pixels'',
      ''Tiles per row: 2, Tiles per column: 1'',
      ''Total tiles: 2''] \<and>
   print_tile_reference 17 16 None [] = print_tile_reference 17 16 (Some 16) []"
proof -
  have h: "files example_world ''dir/tileset.png'' = Some (ImageFile example_image)"
    and h': "files example_world ''grey.png'' = Some (ImageFile grey_image)"
    by (simp_all add: example_world_def)
  have s: "img_size example_image = (64, 32)"
    by (simp add: example_image_def img_size_def)
  have s': "img_size grey_image = (32, 16)"
    by (simp add: grey_image_def img_size_def)
  have o: "stdout example_world = []"
    by (simp add: example_world_def)
  have n: "str_int 64 = ''64''" "str_int 32 = ''32''" "str_int 4 = ''4''" "str_int 2 = ''2''"
    "str_int 8 = ''8''" "str_int 16 = ''16''" "str_int 1 = ''1''"
    by code_simp+
  from number_tileset_tile_size_16 [OF h s, of example_env None 17 16 "[]"]
  have "take 3 (printed (number_tileset example_env ''dir/tileset.png'' None example_world)) =
     [''Processing tileset: 64x32 pixels'',
      ''Tiles per row: 4, Tiles per column: 2'',
      ''Total tiles: 8''] \<and>
     print_tile_reference 17 16 None [] = print_tile_reference 17 16 (Some 16) []"
    by (simp add: o n)
  moreover from number_tileset_tile_size_16 [OF h' s', of example_env None 17 16 "[]"]
  have "take 3 (printed (number_tileset example_env ''grey.png'' None example_world)) =
     [''Processing tileset: 32x16 pixels'',
      ''Tiles per row: 2, Tiles per column: 1'',
      ''Total tiles: 2'']"
    by (simp add: o n)
  ultimately show ?thesis using h h' s s' by (simp only: simp_thms)
qed

subsection \<open>Where a label is drawn\<close>

text \<open>
  C7. On an image that the library lets the script draw on and save, for every cell of
  the grid, row \<open>row\<close> and column \<open>col\<close> counted from 0, the calls made on the saved image
  contain, one directly after the other, a filled rectangle and the text of the cell's
  index: the text is anchored at \<open>(col * 16 + 2, row * 16 + 2)\<close>, and the rectangle, drawn
  first and so beneath the text, is the bounding box \<open>(b0, b1, b2, b3)\<close> of that text at that
  anchor, one unit larger on each of its four sides.
\<close>

theorem label_anchor_and_background:
  assumes "files w tileset_path = Some (ImageFile img)"
    and "img_size img = (W, H)"
    and "ink_error e (img_mode img) [0, 0, 0, 180] = None"
    and "ink_error e (img_mode img) [255, 255, 0] = None"
    and "save_error e
           (case output_path of None \<Rightarrow> fst (splitext tileset_path) @ ''-numbered.png''
            | Some p \<Rightarrow> p) (img_mode img) = None"
    and "0 \<le> row" and "row < H div 16"
    and "0 \<le> col" and "col < W div 16"
    and "textbbox e (col * 16 + 2, row * 16 + 2) (str_int (row * (W div 16) + col + 1))
           (load_font e) = (b0, b1, b2, b3)"
  shows "\<exists>w' numbered before after.
           number_tileset e tileset_path output_path w = Inr (True, w') \<and>
           files w' (case output_path of
                       None \<Rightarrow> fst (splitext tileset_path) @ ''-numbered.png''
                     | Some p \<Rightarrow> p) = Some (ImageFile numbered) \<and>
           drawn numbered =
             before
             @ [Rectangle (b0 - 1, b1 - 1, b2 + 1, b3 + 1) [0, 0, 0, 180],
                Text (col * 16 + 2, row * 16 + 2) (str_int (row * (W div 16) + col + 1))
                  [255, 255, 0] (load_font e)]
             @ after"
proof -
  let ?label = "\<lambda>row col. label_calls e (load_font e) (col * 16 + 2) (row * 16 + 2)
                  (row_major_index (W div 16) row col)"
  have cells: "W div 16 \<le> 0 \<or> H div 16 \<le> 0 \<or>
         (ink_error e (img_mode img) [0, 0, 0, 180] = None \<and>
          ink_error e (img_mode img) [255, 255, 0] = None)"
    using assms(3,4) by simp
  from assms(6,7) have "row \<in> set (py_range (H div 16))"
    by (simp add: in_py_range)
  then obtain b1' a1 where
    rows: "concat (map (\<lambda>row. concat (map (?label row) (py_range (W div 16))))
             (py_range (H div 16))) =
           b1' @ concat (map (?label row) (py_range (W div 16))) @ a1"
    using concat_map_split [of row "py_range (H div 16)"
        "\<lambda>row. concat (map (?label row) (py_range (W div 16)))"]
    by blast
  from assms(8,9) have "col \<in> set (py_range (W div 16))"
    by (simp add: in_py_range)
  then obtain b2' a2 where
    cols: "concat (map (?label row) (py_range (W div 16))) = b2' @ ?label row col @ a2"
    using concat_map_split [of col "py_range (W div 16)" "?label row"]
    by blast
  have label: "?label row col =
      [Rectangle (b0 - 1, b1 - 1, b2 + 1, b3 + 1) [0, 0, 0, 180],
       Text (col * 16 + 2, row * 16 + 2) (str_int (row * (W div 16) + col + 1))
         [255, 255, 0] (load_font e)]"
    using assms(10) by (simp add: label_calls_def row_major_index_def)
  from number_tileset_eq [OF assms(1,2) cells assms(5)]
  obtain w' numbered where
    r: "number_tileset e tileset_path output_path w = Inr (True, w')" and
    f: "files w' (case output_path of
                    None \<Rightarrow> fst (splitext tileset_path) @ ''-numbered.png''
                  | Some p \<Rightarrow> p) = Some (ImageFile numbered)" and
    n: "numbered = after_calls e
          (concat (map (\<lambda>row. concat (map (?label row) (py_range (W div 16))))
              (py_range (H div 16)))) img"
    by simp
  have "drawn numbered =
        (drawn img @ b1' @ b2') @
        [Rectangle (b0 - 1, b1 - 1, b2 + 1, b3 + 1) [0, 0, 0, 180],
         Text (col * 16 + 2, row * 16 + 2) (str_int (row * (W div 16) + col + 1))
           [255, 255, 0] (load_font e)] @ (a2 @ a1)"
    unfolding n drawn_after_calls rows cols label by simp
  with r f show ?thesis by blast
qed

theorem label_anchor_and_background_witness:
  "files example_world ''dir/tileset.png'' = Some (ImageFile example_image) \<and>
   img_size example_image = (64, 32) \<and>
   ink_error example_env (img_mode example_image) [0, 0, 0, 180] = None \<and>
   ink_error example_env (img_mode example_image) [255, 255, 0] = None \<and>
   save_error example_env (fst (splitext ''dir/tileset.png'') @ ''-numbered.png'')
     (img_mode example_image) = None \<and>
   (0 :: int) \<le> 1 \<and> (1 :: int) < 32 div 16 \<and> (0 :: int) \<le> 2 \<and> (2 :: int) < 64 div 16 \<and>
   textbbox example_env (2 * 16 + 2, 1 * 16 + 2) (str_int (1 * (64 div 16) + 2 + 1))
     (load_font example_env) = (34, 21, 41, 30) \<and>
   (\<exists>numbered before after.
      files (snd (projr (number_tileset example_env ''dir/tileset.png'' None example_world)))
        ''dir/tileset-numbered.png'' = Some (ImageFile numbered) \<and>
      drawn numbered =
        before
        @ [Rectangle (33, 20, 42, 31) [0, 0, 0, 180],
           Text (34, 18) ''7'' [255, 255, 0] (TrueType ''arial.ttf'' 12)]
        @ after)"
proof -
  have h: "files example_world ''dir/tileset.png'' = Some (ImageFile example_image)"
    by (simp add: example_world_def)
  have s: "img_size example_image = (64, 32)"
    by (simp add: example_image_def img_size_def)
  have r0: "(0 :: int) \<le> 1" and r1: "(1 :: int) < 32 div 16"
    and c0: "(0 :: int) \<le> 2" and c1: "(2 :: int) < 64 div 16"
    by simp_all
  have n: "str_int 7 = ''7''"
    by code_simp
  have f: "load_font example_env = TrueType ''arial.ttf'' 12"
    by (simp add: load_font_def example_env_def)
  have b: "textbbox example_env (2 * 16 + 2, 1 * 16 + 2) (str_int (1 * (64 div 16) + 2 + 1))
     (load_font example_env) = (34, 21, 41, 30)"
    by (simp add: example_env_def n)
  have p: "fst (splitext ''dir/tileset.png'') = ''dir/tileset''"
    by code_simp
  have x: "snd (splitext ''dir/tileset-numbered.png'') = ''.png''"
    by code_simp
  have i: "ink_error example_env (img_mode example_image) [0, 0, 0, 180] = None"
    and t: "ink_error example_env (img_mode example_image) [255, 255, 0] = None"
    by (simp_all add: example_env_def example_image_def)
  have v: "save_error example_env (case None of
       None \<Rightarrow> fst (splitext ''dir/tileset.png'') @ ''-numbered.png'' | Some p \<Rightarrow> p)
     (img_mode example_image) = None"
    by (simp add: p x example_env_def example_image_def)
  from label_anchor_and_background [OF h s i t v r0 r1 c0 c1 b]
  have "\<exists>w' numbered before after.
      number_tileset example_env ''dir/tileset.png'' None example_world = Inr (True, w') \<and>
      files w' ''dir/tileset-numbered.png'' = Some (ImageFile numbered) \<and>
      drawn numbered =
        before
        @ [Rectangle (33, 20, 42, 31) [0, 0, 0, 180],
           Text (34, 18) ''7'' [255, 255, 0] (TrueType ''arial.ttf'' 12)]
        @ after"
    by (simp add: p n f)
  then obtain w' numbered before after where
    "number_tileset example_env ''dir/tileset.png'' None example_world = Inr (True, w')"
    "files w' ''dir/tileset-numbered.png'' = Some (ImageFile numbered)"
    "drawn numbered =
        before
        @ [Rectangle (33, 20, 42, 31) [0, 0, 0, 180],
           Text (34, 18) ''7'' [255, 255, 0] (TrueType ''arial.ttf'' 12)]
        @ after"
    by blast
  then have "\<exists>numbered before after.
      files (snd (projr (number_tileset example_env ''dir/tileset.png'' None example_world)))
        ''dir/tileset-numbered.png'' = Some (ImageFile numbered) \<and>
      drawn numbered =
        before
        @ [Rectangle (33, 20, 42, 31) [0, 0, 0, 180],
           Text (34, 18) ''7'' [255, 255, 0] (TrueType ''arial.ttf'' 12)]
        @ after"
    by (intro exI [of _ numbered] exI [of _ before] exI [of _ after]) simp
  moreover from v have "save_error example_env
      (fst (splitext ''dir/tileset.png'') @ ''-numbered.png'') (img_mode example_image) = None"
    by simp
  ultimately show ?thesis using h s i t r0 r1 c0 c1 b by (simp only: simp_thms)
qed

subsection \<open>Row-major numbering in both operations\<close>

text \<open>
  C1. For a positive tile size, \<^verbatim>\<open>print_tile_reference\<close> prints, in the line of row \<open>row\<close>
  and at the place of column \<open>col\<close> (both counted from 0), the number
  \<open>row * (width div tile_size) + col + 1\<close>. For an image of size \<open>W\<close> x \<open>H\<close> that the library
  lets the script draw on and save, the calls \<^verbatim>\<open>number_tileset\<close> makes on the saved image
  are, cell after cell, the rectangle and the text of the number
  \<open>row * (W div 16) + col + 1\<close> at the anchor of the cell in row \<open>row\<close> and column \<open>col\<close>. In
  both, rows run from the top and columns from the left. Taken in that order the indices
  of a grid of \<open>cols\<close> columns and \<open>rows\<close> rows are \<open>1, 2, 3, ...\<close>, one for each cell, without
  a gap or a repeat, and when the grid has a cell the last of them is \<open>rows * cols\<close>.
\<close>

theorem tile_numbering_row_major:
  assumes "0 < tile_size"
    and "files w tileset_path = Some (ImageFile img)"
    and "img_size img = (W, H)"
    and "ink_error e (img_mode img) [0, 0, 0, 180] = None"
    and "ink_error e (img_mode img) [255, 255, 0] = None"
    and "save_error e
           (case output_path of None \<Rightarrow> fst (splitext tileset_path) @ ''-numbered.png''
            | Some p \<Rightarrow> p) (img_mode img) = None"
  shows
    "print_tile_reference width height (Some tile_size) out =
       Inr (out @ [CHR 0x0A # ''TILE NUMBER REFERENCE GRID:'',
              ''Each number represents a tile index (1-based, left to right, top to bottom)'',
              '''']
            @ map (\<lambda>row. ''Row '' @ fmt_d 2 (row + 1) @ '': ''
                @ concat (map (\<lambda>col.
                    fmt_d 3 (row_major_index (width div tile_size) row col) @ '' '')
                    (py_range (width div tile_size))))
              (py_range (height div tile_size))
            @ [CHR 0x0A # ''TOTAL TILES: ''
                 @ str_int (int (nat (height div tile_size) * nat (width div tile_size)))]) \<and>
     (\<exists>w' numbered.
        number_tileset e tileset_path output_path w = Inr (True, w') \<and>
        files w' (case output_path of
                    None \<Rightarrow> fst (splitext tileset_path) @ ''-numbered.png''
                  | Some p \<Rightarrow> p) = Some (ImageFile numbered) \<and>
        drawn numbered =
          drawn img
          @ concat (map (\<lambda>row. concat (map (\<lambda>col.
              [Rectangle
                 (case textbbox e (col * 16 + 2, row * 16 + 2)
                         (str_int (row_major_index (W div 16) row col)) (load_font e) of
                    (b0, b1, b2, b3) \<Rightarrow> (b0 - 1, b1 - 1, b2 + 1, b3 + 1))
                 [0, 0, 0, 180],
               Text (col * 16 + 2, row * 16 + 2)
                 (str_int (row_major_index (W div 16) row col)) [255, 255, 0] (load_font e)])
              (py_range (W div 16)))) (py_range (H div 16)))) \<and>
     concat (map (\<lambda>row. map (row_major_index cols row) (py_range cols)) (py_range rows)) =
       map int [1..<Suc (nat rows * nat cols)] \<and>
     (0 < cols \<and> 0 < rows \<longrightarrow>
        last (concat (map (\<lambda>row. map (row_major_index cols row) (py_range cols))
                (py_range rows))) = rows * cols)"
proof (intro conjI)
  from assms(1) have "tile_size \<noteq> 0" by simp
  then show "print_tile_reference width height (Some tile_size) out =
       Inr (out @ [CHR 0x0A # ''TILE NUMBER REFERENCE GRID:'',
              ''Each number represents a tile index (1-based, left to right, top to bottom)'',
              '''']
            @ map (\<lambda>row. ''Row '' @ fmt_d 2 (row + 1) @ '': ''
                @ concat (map (\<lambda>col.
                    fmt_d 3 (row_major_index (width div tile_size) row col) @ '' '')
                    (py_range (width div tile_size))))
              (py_range (height div tile_size))
            @ [CHR 0x0A # ''TOTAL TILES: ''
                 @ str_int (int (nat (height div tile_size) * nat (width div tile_size)))])"
    by (rule print_tile_reference_eq)
  have cells: "W div 16 \<le> 0 \<or> H div 16 \<le> 0 \<or>
         (ink_error e (img_mode img) [0, 0, 0, 180] = None \<and>
          ink_error e (img_mode img) [255, 255, 0] = None)"
    using assms(4,5) by simp
  show "\<exists>w' numbered.
        number_tileset e tileset_path output_path w = Inr (True, w') \<and>
        files w' (case output_path of
                    None \<Rightarrow> fst (splitext tileset_path) @ ''-numbered.png''
                  | Some p \<Rightarrow> p) = Some (ImageFile numbered) \<and>
        drawn numbered =
          drawn img
          @ concat (map (\<lambda>row. concat (map (\<lambda>col.
              [Rectangle
                 (case textbbox e (col * 16 + 2, row * 16 + 2)
                         (str_int (row_major_index (W div 16) row col)) (load_font e) of
                    (b0, b1, b2, b3) \<Rightarrow> (b0 - 1, b1 - 1, b2 + 1, b3 + 1))
                 [0, 0, 0, 180],
               Text (col * 16 + 2, row * 16 + 2)
                 (str_int (row_major_index (W div 16) row col)) [255, 255, 0] (load_font e)])
              (py_range (W div 16)))) (py_range (H div 16)))"
    unfolding number_tileset_eq [OF assms(2,3) cells assms(6)] label_calls_explicit
    by (simp add: drawn_after_calls)
  show "concat (map (\<lambda>row. map (row_major_index cols row) (py_range cols)) (py_range rows)) =
       map int [1..<Suc (nat rows * nat cols)]"
    by (rule row_major_enum)
  show "0 < cols \<and> 0 < rows \<longrightarrow>
        last (concat (map (\<lambda>row. map (row_major_index cols row) (py_range cols))
                (py_range rows))) = rows * cols"
    by (simp add: row_major_last)
qed

theorem tile_numbering_row_major_witness:
  "(0 :: int) < 16 \<and>
   files example_world ''dir/tileset.png'' = Some (ImageFile example_image) \<and>
   img_size example_image = (64, 32) \<and>
   ink_error example_env (img_mode example_image) [0, 0, 0, 180] = None \<and>
   ink_error example_env (img_mode example_image) [255, 255, 0] = None \<and>
   save_error example_env (fst (splitext ''dir/tileset.png'') @ ''-numbered.png'')
     (img_mode example_image) = None \<and>
   print_tile_reference 64 32 (Some 16) [] =
     Inr ([CHR 0x0A # ''TILE NUMBER REFERENCE GRID:'',
           ''Each number represents a tile index (1-based, left to right, top to bottom)'',
           '''']
          @ map (\<lambda>row. ''Row '' @ fmt_d 2 (row + 1) @ '': ''
              @ concat (map (\<lambda>col. fmt_d 3 (row_major_index 4 row col) @ '' '') (py_range 4)))
            (py_range 2)
          @ [CHR 0x0A # ''TOTAL TILES: '' @ str_int 8]) \<and>
   (\<exists>numbered.
      files (snd (projr (number_tileset example_env ''dir/tileset.png'' None example_world)))
        ''dir/tileset-numbered.png'' = Some (ImageFile numbered) \<and>
      length (drawn numbered) = 16) \<and>
   last (concat (map (\<lambda>row. map (row_major_index 4 row) (py_range 4)) (py_range 2))) = 8"
proof -
  have t: "(0 :: int) < 16" by simp
  have h: "files example_world ''dir/tileset.png'' = Some (ImageFile example_image)"
    by (simp add: example_world_def)
  have s: "img_size example_image = (64, 32)"
    by (simp add: example_image_def img_size_def)
  have p: "fst (splitext ''dir/tileset.png'') = ''dir/tileset''"
    by code_simp
  have x: "snd (splitext ''dir/tileset-numbered.png'') = ''.png''"
    by code_simp
  have i: "ink_error example_env (img_mode example_image) [0, 0, 0, 180] = None"
    and j: "ink_error example_env (img_mode example_image) [255, 255, 0] = None"
    by (simp_all add: example_env_def example_image_def)
  have v: "save_error example_env (case None of
       None \<Rightarrow> fst (splitext ''dir/tileset.png'') @ ''-numbered.png'' | Some p \<Rightarrow> p)
     (img_mode example_image) = None"
    by (simp add: p x example_env_def example_image_def)
  have d: "drawn example_image = []"
    by (simp add: example_image_def)
  have g: "py_range 4 = [0, 1, 2, 3]" "py_range 2 = [0, 1]"
    by code_simp+
  note numbering = tile_numbering_row_major [OF t h s i j v, of 64 32 "[]" 4 2]
  from numbering [THEN conjunct1]
  have "print_tile_reference 64 32 (Some 16) [] =
     Inr ([CHR 0x0A # ''TILE NUMBER REFERENCE GRID:'',
           ''Each number represents a tile index (1-based, left to right, top to bottom)'',
           '''']
          @ map (\<lambda>row. ''Row '' @ fmt_d 2 (row + 1) @ '': ''
              @ concat (map (\<lambda>col. fmt_d 3 (row_major_index 4 row col) @ '' '') (py_range 4)))
            (py_range 2)
          @ [CHR 0x0A # ''TOTAL TILES: '' @ str_int 8])"
    by simp
  moreover from numbering [THEN conjunct2, THEN conjunct1]
  obtain w' numbered where
    "number_tileset example_env ''dir/tileset.png'' None example_world = Inr (True, w')"
    "files w' ''dir/tileset-numbered.png'' = Some (ImageFile numbered)"
    "length (drawn numbered) = 16"
    by (auto simp: p d g)
  then have "\<exists>numbered.
      files (snd (projr (number_tileset example_env ''dir/tileset.png'' None example_world)))
        ''dir/tileset-numbered.png'' = Some (ImageFile numbered) \<and>
      length (drawn numbered) = 16"
    by (intro exI [of _ numbered]) simp
  moreover from numbering [THEN conjunct2, THEN conjunct2, THEN conjunct2]
  have "last (concat (map (\<lambda>row. map (row_major_index 4 row) (py_range 4)) (py_range 2))) = 8"
    by simp
  moreover from v have "save_error example_env
      (fst (splitext ''dir/tileset.png'') @ ''-numbered.png'') (img_mode example_image) = None"
    by simp
  ultimately show ?thesis using t h s i j by (simp only: simp_thms)
qed

subsection \<open>The shape of the printed grid\<close>

text \<open>
  C2. For a positive tile size and a width and a height that are not negative,
  \<^verbatim>\<open>print_tile_reference\<close> prints its three header lines, then \<open>height div tile_size\<close> row
  lines, then the total. Each row line is the row label followed by \<open>width div tile_size\<close>
  number tokens; each token is the number padded on the left to three characters (exactly
  three for a number below 1000) and followed by a space. The total printed is
  \<open>(width div tile_size) * (height div tile_size)\<close>.
\<close>

theorem print_tile_reference_counts:
  assumes "0 < tile_size" and "0 \<le> width" and "0 \<le> height"
  shows "\<exists>grid.
     print_tile_reference width height (Some tile_size) out =
       Inr (out @ [CHR 0x0A # ''TILE NUMBER REFERENCE GRID:'',
              ''Each number represents a tile index (1-based, left to right, top to bottom)'',
              '''']
            @ grid
            @ [CHR 0x0A # ''TOTAL TILES: ''
                 @ str_int ((width div tile_size) * (height div tile_size))]) \<and>
     int (length grid) = height div tile_size \<and>
     (\<forall>line \<in> set grid. \<exists>row numbers.
        line = ''Row '' @ fmt_d 2 (row + 1) @ '': ''
                 @ concat (map (\<lambda>n. fmt_d 3 n @ '' '') numbers) \<and>
        int (length numbers) = width div tile_size \<and>
        (\<forall>n \<in> set numbers. n < 1000 \<longrightarrow> length (fmt_d 3 n) = 3))"
proof -
  from print_tile_reference_shape [OF assms(1), of width height out]
  obtain grid where
    out: "print_tile_reference width height (Some tile_size) out =
       Inr (out @ [CHR 0x0A # ''TILE NUMBER REFERENCE GRID:'',
              ''Each number represents a tile index (1-based, left to right, top to bottom)'',
              '''']
            @ grid
            @ [CHR 0x0A # ''TOTAL TILES: ''
                 @ str_int (int (nat (width div tile_size)) * int (nat (height div tile_size)))])"
    and rows: "length grid = nat (height div tile_size)"
    and lines: "\<forall>line \<in> set grid. \<exists>row numbers.
        line = ''Row '' @ fmt_d 2 (row + 1) @ '': ''
                 @ concat (map (\<lambda>n. fmt_d 3 n @ '' '') numbers) \<and>
        length numbers = nat (width div tile_size) \<and>
        (\<forall>n \<in> set numbers. n < 1000 \<longrightarrow> length (fmt_d 3 n) = 3)"
    and cols_nonneg: "0 \<le> width \<longrightarrow> int (nat (width div tile_size)) = width div tile_size"
    and rows_nonneg: "0 \<le> height \<longrightarrow> int (nat (height div tile_size)) = height div tile_size"
    by blast
  from cols_nonneg assms(2) have c: "int (nat (width div tile_size)) = width div tile_size"
    by blast
  from rows_nonneg assms(3) have r: "int (nat (height div tile_size)) = height div tile_size"
    by blast
  from out have "print_tile_reference width height (Some tile_size) out =
       Inr (out @ [CHR 0x0A # ''TILE NUMBER REFERENCE GRID:'',
              ''Each number represents a tile index (1-based, left to right, top to bottom)'',
              '''']
            @ grid
            @ [CHR 0x0A # ''TOTAL TILES: ''
                 @ str_int ((width div tile_size) * (height div tile_size))])"
    unfolding c r .
  moreover from rows r have "int (length grid) = height div tile_size"
    by (simp only:)
  moreover have "\<exists>row numbers.
        line = ''Row '' @ fmt_d 2 (row + 1) @ '': ''
                 @ concat (map (\<lambda>n. fmt_d 3 n @ '' '') numbers) \<and>
        int (length numbers) = width div tile_size \<and>
        (\<forall>n \<in> set numbers. n < 1000 \<longrightarrow> length (fmt_d 3 n) = 3)"
    if "line \<in> set grid" for line
  proof -
    from lines that obtain row numbers where
      "line = ''Row '' @ fmt_d 2 (row + 1) @ '': ''
                 @ concat (map (\<lambda>n. fmt_d 3 n @ '' '') numbers)"
      "length numbers = nat (width div tile_size)"
      "\<forall>n \<in> set numbers. n < 1000 \<longrightarrow> length (fmt_d 3 n) = 3"
      by blast
    moreover from this(2) c have "int (length numbers) = width div tile_size"
      by (simp only:)
    ultimately show ?thesis by blast
  qed
  ultimately show ?thesis by blast
qed

theorem print_tile_reference_counts_witness:
  "(0 :: int) < 16 \<and> (0 :: int) \<le> 64 \<and> (0 :: int) \<le> 32 \<and>
   (\<exists>grid. print_tile_reference 64 32 (Some 16) [] =
       Inr ([CHR 0x0A # ''TILE NUMBER REFERENCE GRID:'',
              ''Each number represents a tile index (1-based, left to right, top to bottom)'',
              '''']
            @ grid @ [CHR 0x0A # ''TOTAL TILES: 8'']) \<and> length grid = 2)"
proof -
  have t: "(0 :: int) < 16" and a: "(0 :: int) \<le> 64" and b: "(0 :: int) \<le> 32"
    by simp_all
  have n: "str_int 8 = ''8''" by code_simp
  from print_tile_reference_counts [OF t a b, of "[]"]
  obtain grid where
    "print_tile_reference 64 32 (Some 16) [] =
       Inr ([CHR 0x0A # ''TILE NUMBER REFERENCE GRID:'',
              ''Each number represents a tile index (1-based, left to right, top to bottom)'',
              '''']
            @ grid @ [CHR 0x0A # ''TOTAL TILES: 8''])"
    "length grid = 2"
    by (auto simp: n)
  then show ?thesis by (intro conjI t a b exI [of _ grid]) simp_all
qed

end
